theory Spec2Isabelle
  imports Main
begin

section \<open>Strings\<close>

text \<open>
  Command tokens and paths are \<^typ>\<open>string\<close>s. \<open>String.prototype.toLowerCase\<close> is
  modelled on ASCII letters (\<open>A\<close>--\<open>Z\<close> get bit 5 set); every other character is kept.
  \<open>startsWith\<close>, \<open>endsWith\<close> and \<open>includes\<close> are the JavaScript string predicates of the
  same names (\<open>str_includes\<close>, since \<open>includes\<close> is reserved).
\<close>

definition lower_char :: "char \<Rightarrow> char" where
  "lower_char c =
     (let n = (of_char c :: nat) in
      if 65 \<le> n \<and> n \<le> 90
      then (case c of Char b0 b1 b2 b3 b4 b5 b6 b7 \<Rightarrow> Char b0 b1 b2 b3 b4 True b6 b7)
      else c)"

definition toLowerCase :: "string \<Rightarrow> string" where
  "toLowerCase s = map lower_char s"

fun startsWith :: "string \<Rightarrow> string \<Rightarrow> bool" where
  "startsWith s [] = True"
| "startsWith [] (p # ps) = False"
| "startsWith (c # cs) (p # ps) = (c = p \<and> startsWith cs ps)"

definition endsWith :: "string \<Rightarrow> string \<Rightarrow> bool" where
  "endsWith s suf = startsWith (rev s) (rev suf)"

fun str_includes :: "string \<Rightarrow> string \<Rightarrow> bool" where
  "str_includes [] sub = (sub = [])"
| "str_includes (c # cs) sub = (startsWith (c # cs) sub \<or> str_includes cs sub)"

text \<open>\<open>path.join(dir, name)\<close> for a directory path and one entry name (POSIX separator).\<close>

definition path_join :: "string \<Rightarrow> string \<Rightarrow> string" where
  "path_join dir name = dir @ ''/'' @ name"

text \<open>\<open>s.split(path.sep)[0]\<close>: the text before the first separator.\<close>

definition first_segment :: "string \<Rightarrow> string" where
  "first_segment s = takeWhile (\<lambda>c. c \<noteq> CHR ''/'') s"

text \<open>\<open>Array.prototype.findIndex\<close>, with \<open>None\<close> for \<open>-1\<close>.\<close>

fun findIndex :: "('a \<Rightarrow> bool) \<Rightarrow> 'a list \<Rightarrow> nat option" where
  "findIndex P [] = None"
| "findIndex P (x # xs) =
     (if P x then Some 0 else map_option Suc (findIndex P xs))"

section \<open>Data model of PluginLoader.ts\<close>

text \<open>
  An awaited call either resolves or rejects. A generic \<open>handleMessage\<close> hook resolves
  to a boolean or rejects.
\<close>

datatype result = Returns | Throws

datatype hook_result = HookReturns bool | HookThrows

text \<open>
  \<open>SerializedMessage\<close>: the fields that dispatch reads, \<open>message.command\<close>,
  \<open>message.args\<close> (both optional) and the \<open>reply\<close> helper, which sends a text and may
  itself reject.
\<close>

record SerializedMessage =
  msg_command :: "string option"
  msg_args :: "string list option"
  reply :: "string \<Rightarrow> result"

text \<open>
  \<open>interface CommandHandler\<close>. Field names carry the prefix \<open>cmd_\<close> because
  \<open>commands\<close>, \<open>description\<close> and \<open>category\<close> are also fields of other interfaces. The
  socket argument of \<open>handler\<close> is not modelled: dispatch only passes it through.
\<close>

record CommandHandler =
  cmd_commands :: "string list"
  cmd_description :: "string option"
  cmd_category :: "string option"
  cmd_handler :: "SerializedMessage \<Rightarrow> string list \<Rightarrow> result"

text \<open>
  \<open>interface Plugin\<close>. \<open>init\<close> is \<open>None\<close> when the plugin declares no hook and otherwise
  the outcome of awaiting it.
\<close>

record Plugin =
  info_name :: string
  info_version :: string
  info_author :: string
  info_description :: "string option"
  plugin_category :: "string option"
  init :: "result option"
  plugin_commands :: "CommandHandler list option"
  plugin_handleMessage :: "(SerializedMessage \<Rightarrow> hook_result) option"

text \<open>\<open>interface PluginMetadata\<close>, the descriptor of one discovered module file.\<close>

record PluginMetadata =
  filePath :: string
  category :: "string option"
  loaded :: bool
  plugin :: "Plugin option"

text \<open>
  What \<open>Logger\<close> is called with, one constructor per call site of the loader.
\<close>

datatype log_entry =
    CreatedPluginsDir string
  | Discovered nat
  | ErrorDiscovering string
  | ErrorLoadingPlugin string
  | LoadedPlugin "string option" string
  | CommandConflict string
  | ErrorHandlingCommand string
  | ErrorInMessageHandler
  | AllPluginsUnloaded
  | UnloadedPlugin string
  | PluginFileNotFound string

text \<open>
  \<open>class PluginLoader\<close>: the command registry (a \<open>Map\<close> from token to handler), the
  descriptor array, the array of loaded plugins in the order they were pushed, and the
  constructor's \<open>pluginsDir\<close>. \<open>logs\<close> collects the logger calls made so far.
\<close>

record PluginLoader =
  commands :: "string \<rightharpoonup> CommandHandler"
  pluginMetadata :: "PluginMetadata list"
  loadedPlugins :: "Plugin list"
  pluginsDir :: string
  logs :: "log_entry list"

definition log :: "log_entry \<Rightarrow> PluginLoader \<Rightarrow> PluginLoader" where
  "log e L = L\<lparr>logs := logs L @ [e]\<rparr>"

section \<open>registerCommands\<close>

text \<open>
  The inner loop of \<open>registerCommands\<close> over \<open>handler.commands\<close>: a token whose lower-case
  form is already a key is logged and skipped (\<open>continue\<close>), any other is set.
\<close>

fun registerTokens :: "PluginLoader \<Rightarrow> CommandHandler \<Rightarrow> string list \<Rightarrow> PluginLoader" where
  "registerTokens L h [] = L"
| "registerTokens L h (command # rest) =
     (let normalizedCmd = toLowerCase command in
      if commands L normalizedCmd \<noteq> None
      then registerTokens (log (CommandConflict normalizedCmd) L) h rest
      else registerTokens (L\<lparr>commands := (commands L)(normalizedCmd \<mapsto> h)\<rparr>) h rest)"

fun registerCommands :: "PluginLoader \<Rightarrow> CommandHandler list \<Rightarrow> PluginLoader" where
  "registerCommands L [] = L"
| "registerCommands L (h # handlers) =
     registerCommands (registerTokens L h (cmd_commands h)) handlers"

section \<open>handleMessage\<close>

text \<open>
  What a dispatch does that an observer can see, in order: a command handler called with
  its arguments, a plugin's generic hook called, a reply sent through the message, a
  logger call.
\<close>

datatype effect =
    CallCommand CommandHandler "string list"
  | CallHook Plugin
  | Reply string
  | Log log_entry

text \<open>
  The notice sent when a command handler rejects: the cross mark U+274C in UTF-8, then
  the text.
\<close>

definition failure_notice :: string where
  "failure_notice =
     [char_of (226::nat), char_of (157::nat), char_of (140::nat)]
       @ '' An error occurred while processing your command.''"

text \<open>The fallback loop over \<open>this.loadedPlugins\<close>.\<close>

fun messageHandlers :: "Plugin list \<Rightarrow> SerializedMessage \<Rightarrow> effect list" where
  "messageHandlers [] m = []"
| "messageHandlers (p # ps) m =
     (case plugin_handleMessage p of
        None \<Rightarrow> messageHandlers ps m
      | Some hook \<Rightarrow>
          (case hook m of
             HookReturns handled \<Rightarrow>
               (if handled then [CallHook p] else CallHook p # messageHandlers ps m)
           | HookThrows \<Rightarrow> CallHook p # Log ErrorInMessageHandler # messageHandlers ps m))"

text \<open>
  \<open>PluginLoader.handleMessage\<close>. \<open>if (command)\<close> is false for \<open>undefined\<close> and for the
  empty string; \<open>args || []\<close> replaces a missing argument array. The result is the effects
  in order and whether the returned promise resolves; it rejects only when the reply in
  the \<open>catch\<close> block rejects.
\<close>

definition handleMessage :: "PluginLoader \<Rightarrow> SerializedMessage \<Rightarrow> effect list \<times> result" where
  "handleMessage L m =
     (let fallback = (messageHandlers (loadedPlugins L) m, Returns) in
      case msg_command m of
        None \<Rightarrow> fallback
      | Some command \<Rightarrow>
          if command = [] then fallback
          else
            (case commands L (toLowerCase command) of
               None \<Rightarrow> fallback
             | Some h \<Rightarrow>
                 (let args = (case msg_args m of None \<Rightarrow> [] | Some a \<Rightarrow> a) in
                  case cmd_handler h m args of
                    Returns \<Rightarrow> ([CallCommand h args], Returns)
                  | Throws \<Rightarrow>
                      ([CallCommand h args, Log (ErrorHandlingCommand command),
                        Reply failure_notice],
                       reply m failure_notice))))"

section \<open>Discovery\<close>

text \<open>
  The directory tree as \<open>fs.readdirSync(dir, {withFileTypes: true})\<close> shows it: an entry
  is a file, a directory (whose listing is \<open>None\<close> when reading it throws) or something
  else (a link, a socket).
\<close>

datatype dirent =
    FileEnt string
  | DirEnt string "dirent list option"
  | OtherEnt string

text \<open>
  \<open>discoverDirectory(dirPath, category)\<close> and its loop over the items. Every call has
  its own \<open>try\<close>/\<open>catch\<close>, so an unreadable directory is logged and skipped.
\<close>

fun discoverDirectory ::
    "PluginLoader \<Rightarrow> string \<Rightarrow> string option \<Rightarrow> dirent list option \<Rightarrow> PluginLoader"
  and discoverItems ::
    "PluginLoader \<Rightarrow> string \<Rightarrow> string option \<Rightarrow> dirent list \<Rightarrow> PluginLoader" where
  "discoverDirectory L dirPath cat None = log (ErrorDiscovering dirPath) L"
| "discoverDirectory L dirPath cat (Some items) = discoverItems L dirPath cat items"
| "discoverItems L dirPath cat [] = L"
| "discoverItems L dirPath cat (FileEnt name # items) =
     (if endsWith name ''.ts'' \<or> endsWith name ''.js''
      then discoverItems
             (L\<lparr>pluginMetadata := pluginMetadata L @
                  [\<lparr>filePath = path_join dirPath name, category = cat,
                    loaded = False, plugin = None\<rparr>]\<rparr>)
             dirPath cat items
      else discoverItems L dirPath cat items)"
| "discoverItems L dirPath cat (DirEnt name sub # items) =
     discoverItems (discoverDirectory L (path_join dirPath name) (Some name) sub)
       dirPath cat items"
| "discoverItems L dirPath cat (OtherEnt name # items) = discoverItems L dirPath cat items"

text \<open>
  \<open>discoverPlugins\<close>: the root is \<open>None\<close> when \<open>fs.existsSync(this.pluginsDir)\<close> is false
  (the directory is then created and nothing is discovered).
\<close>

definition discoverPlugins :: "PluginLoader \<Rightarrow> dirent list option option \<Rightarrow> PluginLoader" where
  "discoverPlugins L root =
     (case root of
        None \<Rightarrow> log (CreatedPluginsDir (pluginsDir L)) L
      | Some listing \<Rightarrow>
          (let L' = discoverDirectory L (pluginsDir L) None listing
           in log (Discovered (length (pluginMetadata L'))) L'))"

section \<open>Loading, unloading, reloading\<close>

text \<open>
  What the default export of a plugin module is: nothing, a plugin object, or a factory.
  A factory run is described by the handlers it passes to \<open>context.registerCommand\<close>, in
  call order, and by what it ends with: the plugin it returns, or \<open>None\<close> when it throws
  (or returns no object).
\<close>

datatype plugin_export =
    NoDefault
  | ExportObject Plugin
  | ExportFactory "CommandHandler list" "Plugin option"

datatype import_result = ImportFails | Module plugin_export

text \<open>
  The Node.js functions the loader calls, as parameters: \<open>path.normalize\<close>,
  \<open>path.relative\<close>, \<open>path.dirname\<close>, \<open>fs.existsSync\<close>, whether \<open>require.resolve\<close>
  returns (rather than throws), and what \<open>import(path)\<close> yields.
\<close>

record node_env =
  normalize :: "string \<Rightarrow> string"
  relative :: "string \<Rightarrow> string \<Rightarrow> string"
  dirname :: "string \<Rightarrow> string"
  existsSync :: "string \<Rightarrow> bool"
  resolves :: "string \<Rightarrow> bool"
  importModule :: "string \<Rightarrow> import_result"

text \<open>
  \<open>context.registerCommand(handler)\<close> is \<open>this.registerCommands([handler])\<close>, once per
  call of the factory.
\<close>

fun registerImperative :: "PluginLoader \<Rightarrow> CommandHandler list \<Rightarrow> PluginLoader" where
  "registerImperative L [] = L"
| "registerImperative L (h # hs) = registerImperative (registerCommands L [h]) hs"

text \<open>
  The part of \<open>loadPlugin\<close> after the plugin object is at hand: the category is
  overwritten, \<open>init\<close> is awaited, the declared handlers get the category and are
  registered, then the descriptor (at index \<open>i\<close> of \<open>pluginMetadata\<close>) and \<open>loadedPlugins\<close>
  are updated. A rejecting \<open>init\<close> lands in the \<open>catch\<close> block.

  Handlers and plugins are values here, objects in the source. The source writes the
  category into the handler objects in place, so a handler that the factory had already
  passed to \<open>context.registerCommand\<close> shows the new category through its registry
  entry as well; the model leaves an entry made earlier as it was. Nothing below speaks
  of the category of such an entry.
\<close>

definition finishLoad :: "PluginLoader \<Rightarrow> nat \<Rightarrow> Plugin \<Rightarrow> PluginLoader" where
  "finishLoad L i exported =
     (let metadata = pluginMetadata L ! i;
          p = exported\<lparr>plugin_category := category metadata\<rparr>
      in if init p = Some Throws then log (ErrorLoadingPlugin (filePath metadata)) L
         else
           (let cmds = map_option (map (\<lambda>cmd. cmd\<lparr>cmd_category := category metadata\<rparr>))
                         (plugin_commands p);
                p' = p\<lparr>plugin_commands := cmds\<rparr>;
                L1 = (case cmds of None \<Rightarrow> L | Some hs \<Rightarrow> registerCommands L hs);
                L2 = L1\<lparr>pluginMetadata :=
                          (pluginMetadata L1)[i := metadata\<lparr>loaded := True, plugin := Some p'\<rparr>],
                        loadedPlugins := loadedPlugins L1 @ [p']\<rparr>
            in log (LoadedPlugin (category metadata) (info_name p')) L2))"

text \<open>
  \<open>loadPlugin(metadata)\<close>, the descriptor given by its index \<open>i\<close> in \<open>pluginMetadata\<close>
  (the source passes the object itself; an index outside the array does not occur and
  leaves the loader as it is). Every failure is caught and logged. One load is run
  from its start to its end; under \<open>loadAllPlugins\<close> the awaits let the steps of other
  loads come between the factory and what follows \<open>init\<close>.
\<close>

definition loadPlugin :: "node_env \<Rightarrow> PluginLoader \<Rightarrow> nat \<Rightarrow> PluginLoader" where
  "loadPlugin env L i =
     (if \<not> i < length (pluginMetadata L) then L
      else
        (let metadata = pluginMetadata L ! i in
         if loaded metadata then L
         else
           (case importModule env (filePath metadata) of
              ImportFails \<Rightarrow> log (ErrorLoadingPlugin (filePath metadata)) L
            | Module NoDefault \<Rightarrow> log (ErrorLoadingPlugin (filePath metadata)) L
            | Module (ExportObject p) \<Rightarrow> finishLoad L i p
            | Module (ExportFactory imperative ending) \<Rightarrow>
                (let L1 = registerImperative L imperative in
                 case ending of
                   None \<Rightarrow> log (ErrorLoadingPlugin (filePath metadata)) L1
                 | Some p \<Rightarrow> finishLoad L1 i p))))"

text \<open>
  The two nested loops of \<open>unloadPlugin\<close> that call \<open>this.commands.delete\<close> on the
  lower-cased form of every token of every declared handler.
\<close>

definition deleteTokens ::
    "(string \<rightharpoonup> CommandHandler) \<Rightarrow> CommandHandler list \<Rightarrow> (string \<rightharpoonup> CommandHandler)" where
  "deleteTokens reg handlers =
     fold (\<lambda>h r. fold (\<lambda>command r'. r'(toLowerCase command := None)) (cmd_commands h) r)
       handlers reg"

text \<open>
  \<open>unloadPlugin(filePath)\<close>. The plugin is taken out of \<open>loadedPlugins\<close> at its first
  occurrence (\<open>findIndex\<close> with \<open>===\<close>, then \<open>splice\<close>); the model compares the
  plugin values.
\<close>

definition unloadPlugin :: "node_env \<Rightarrow> PluginLoader \<Rightarrow> string \<Rightarrow> PluginLoader \<times> bool" where
  "unloadPlugin env L path =
     (let normalizedPath = normalize env path in
      case findIndex (\<lambda>meta. normalize env (filePath meta) = normalizedPath)
             (pluginMetadata L) of
        None \<Rightarrow> (L, False)
      | Some metaIndex \<Rightarrow>
          (let metadata = pluginMetadata L ! metaIndex in
           if \<not> loaded metadata then (L, False)
           else
             (case plugin metadata of
                None \<Rightarrow> (L, False)
              | Some p \<Rightarrow>
                  (let L1 = (case plugin_commands p of
                               None \<Rightarrow> L
                             | Some hs \<Rightarrow> L\<lparr>commands := deleteTokens (commands L) hs\<rparr>);
                       L2 = L1\<lparr>loadedPlugins := remove1 p (loadedPlugins L1)\<rparr>;
                       L3 = L2\<lparr>pluginMetadata :=
                                 (pluginMetadata L2)
                                   [metaIndex := metadata\<lparr>loaded := False, plugin := None\<rparr>]\<rparr>
                   in (log (UnloadedPlugin normalizedPath) L3, True)))))"

text \<open>
  \<open>reloadPlugin(filePath)\<close>: the promise resolves to a boolean, or rejects when
  \<open>require.resolve\<close> throws on the path of a known descriptor.
\<close>

datatype reload_result = Resolved bool | Rejected

definition reloadPlugin ::
    "node_env \<Rightarrow> PluginLoader \<Rightarrow> string \<Rightarrow> PluginLoader \<times> reload_result" where
  "reloadPlugin env L path =
     (let normalizedPath = normalize env path in
      case findIndex (\<lambda>meta. normalize env (filePath meta) = normalizedPath)
             (pluginMetadata L) of
        None \<Rightarrow>
          (if \<not> existsSync env path
           then (log (PluginFileNotFound path) L, Resolved False)
           else
             (let relativePath = relative env (pluginsDir L) (dirname env path);
                  cat = first_segment relativePath;
                  L1 = L\<lparr>pluginMetadata := pluginMetadata L @
                           [\<lparr>filePath = normalizedPath,
                             category = (if cat \<noteq> [] then Some cat else None),
                             loaded = False, plugin = None\<rparr>]\<rparr>;
                  metaIndex = length (pluginMetadata L1) - 1
              in (loadPlugin env L1 metaIndex, Resolved True)))
      | Some metaIndex \<Rightarrow>
          (let L1 = fst (unloadPlugin env L path) in
           if \<not> resolves env path then (L1, Rejected)
           else (loadPlugin env L1 metaIndex, Resolved True)))"

section \<open>The supervisor (monitor.ts)\<close>

text \<open>
  The supervisor is event driven. Its module-level variables are the first five fields
  of the state; the rest is the environment it acts on: a clock in milliseconds, the
  pending timers (handle, due time, callback), the pending \<open>treeKill\<close> callbacks, the
  worker processes whose IPC channel is connected, a counter for fresh handles (timers,
  watchers, processes), the working directory, whether \<open>process.exit\<close> was called, and
  the effects so far.
\<close>

datatype callback =
    RestartAfterKill string
  | RestartAfterExit string
  | DebounceFire nat string string
  | ForceExit

datatype kill_callback = KilledForRestart string | KilledForShutdown nat

datatype ipc_out = ReloadPlugin string | FileChanged string

datatype ipc_in = MsgRestart | MsgReady | MsgOther

datatype monitor_log =
    AlreadyRestarting
  | TerminatingExisting nat
  | ErrorKillingProcess
  | ProcessTerminated
  | ShuttingDownNotStarting
  | StartingBot string
  | Received
  | RestartCommandReceived
  | BotReady
  | ExitedDuringShutdown
  | ExitedNormal
  | ExitedAbnormal "int option"
  | RestartingIn5Seconds
  | FailedToStartChild
  | SettingUpWatchers string
  | PluginsDirectory string
  | FileChangeDetected string string
  | PluginChangeDetected string
  | SentReloadCommand string
  | CannotReloadPlugin
  | CoreFileChangeDetected string
  | NonPluginFileChanged string
  | SentFileChangeNotification string
  | CannotSendNotification
  | CleaningUpWatchers nat
  | WatchersCleanedUp
  | NoWatchersToCleanUp
  | InitiatingShutdown
  | TerminatingChild nat
  | ForceExiting
  | ErrorTerminatingChild
  | ChildTerminated
  | MonitorShuttingDown
  | NoChildToTerminate

datatype monitor_effect =
    Spawn nat string
  | TreeKill nat
  | Send nat ipc_out
  | Watch nat
  | CloseWatcher nat
  | Logged monitor_log

text \<open>
  A watcher is its handle together with what its callback closes over: the worker it
  was set up for and the main file.
\<close>

type_synonym watcher = "nat \<times> nat \<times> string"

record monitor =
  currentProcess :: "nat option"
  fileWatchers :: "watcher list"
  isRestarting :: bool
  debounceTimer :: "nat option"
  isShuttingDown :: bool
  now :: nat
  timers :: "(nat \<times> nat \<times> callback) list"
  kills :: "(nat \<times> kill_callback) list"
  connected :: "nat \<Rightarrow> bool"
  nextHandle :: nat
  cwd :: string
  exited :: "nat option"
  trace :: "monitor_effect list"

definition DEBOUNCE_TIME :: nat where
  "DEBOUNCE_TIME = 500"

definition emit :: "monitor_effect \<Rightarrow> monitor \<Rightarrow> monitor" where
  "emit e st = st\<lparr>trace := trace st @ [e]\<rparr>"

definition mlog :: "monitor_log \<Rightarrow> monitor \<Rightarrow> monitor" where
  "mlog l st = emit (Logged l) st"

definition setTimeout :: "callback \<Rightarrow> nat \<Rightarrow> monitor \<Rightarrow> nat \<times> monitor" where
  "setTimeout cb delay st =
     (nextHandle st,
      st\<lparr>timers := timers st @ [(nextHandle st, now st + delay, cb)],
         nextHandle := Suc (nextHandle st)\<rparr>)"

definition clearTimeout :: "nat \<Rightarrow> monitor \<Rightarrow> monitor" where
  "clearTimeout h st = st\<lparr>timers := filter (\<lambda>(h', due, cb). h' \<noteq> h) (timers st)\<rparr>"

definition treeKill :: "nat \<Rightarrow> kill_callback \<Rightarrow> monitor \<Rightarrow> monitor" where
  "treeKill pid cb st = emit (TreeKill pid) (st\<lparr>kills := kills st @ [(pid, cb)]\<rparr>)"

definition process_exit :: "nat \<Rightarrow> monitor \<Rightarrow> monitor" where
  "process_exit code st = st\<lparr>exited := Some code\<rparr>"

text \<open>\<open>path.basename\<close>: the text after the last separator.\<close>

definition basename :: "string \<Rightarrow> string" where
  "basename s = rev (takeWhile (\<lambda>c. c \<noteq> CHR ''/'') (rev s))"

definition srcDir :: "monitor \<Rightarrow> string" where
  "srcDir st = path_join (cwd st) ''src''"

definition cleanupFileWatchers :: "monitor \<Rightarrow> monitor" where
  "cleanupFileWatchers st =
     (let watcherCount = length (fileWatchers st) in
      if watcherCount > 0
      then mlog WatchersCleanedUp
             ((fold (\<lambda>w s. emit (CloseWatcher (fst w)) s) (fileWatchers st)
                 (mlog (CleaningUpWatchers watcherCount) st))\<lparr>fileWatchers := []\<rparr>)
      else mlog NoWatchersToCleanUp st)"

text \<open>
  \<open>startAppProcess(file)\<close>: spawning yields a fresh process handle with a connected
  channel; its \<open>message\<close>, \<open>exit\<close> and \<open>error\<close> handlers are the functions below.
\<close>

definition startAppProcess :: "string \<Rightarrow> monitor \<Rightarrow> monitor" where
  "startAppProcess file st =
     (if isShuttingDown st then mlog ShuttingDownNotStarting st
      else
        (let st1 = mlog (StartingBot file) st;
             proc = nextHandle st1;
             st2 = emit (Spawn proc file)
                     (st1\<lparr>nextHandle := Suc proc, connected := (connected st1)(proc := True)\<rparr>)
         in st2\<lparr>currentProcess := Some proc\<rparr>))"

definition startApp :: "string \<Rightarrow> monitor \<Rightarrow> monitor" where
  "startApp file st =
     (if isRestarting st then mlog AlreadyRestarting st
      else
        (let st1 = st\<lparr>isRestarting := True\<rparr> in
         case currentProcess st1 of
           Some pid \<Rightarrow> treeKill pid (KilledForRestart file) (mlog (TerminatingExisting pid) st1)
         | None \<Rightarrow> (startAppProcess file st1)\<lparr>isRestarting := False\<rparr>))"

text \<open>
  The callback of \<open>treeKill\<close>, in \<open>startApp\<close> (both branches clear \<open>currentProcess\<close> and
  set the one-second timer) and in \<open>gracefulShutdown\<close>.
\<close>

definition on_killed :: "kill_callback \<Rightarrow> bool \<Rightarrow> monitor \<Rightarrow> monitor" where
  "on_killed cb err st =
     (case cb of
        KilledForRestart file \<Rightarrow>
          (let st1 = mlog (if err then ErrorKillingProcess else ProcessTerminated) st;
               st2 = st1\<lparr>currentProcess := None\<rparr>
           in snd (setTimeout (RestartAfterKill file) 1000 st2))
      | KilledForShutdown forceExitTimer \<Rightarrow>
          (let st1 = clearTimeout forceExitTimer st;
               st2 = mlog (if err then ErrorTerminatingChild else ChildTerminated) st1
           in process_exit 0 (mlog MonitorShuttingDown st2)))"

text \<open>The \<open>exit\<close> handler of the worker; \<open>code\<close> is \<open>None\<close> for \<open>null\<close>.\<close>

definition on_exit :: "string \<Rightarrow> int option \<Rightarrow> monitor \<Rightarrow> monitor" where
  "on_exit file code st =
     (if isShuttingDown st then mlog ExitedDuringShutdown st
      else
        (let st1 = (if code = Some 0 then mlog ExitedNormal st
                    else mlog (ExitedAbnormal code) st);
             st2 = st1\<lparr>currentProcess := None\<rparr>;
             st3 = cleanupFileWatchers st2
         in if code \<noteq> Some 0 \<and> \<not> isRestarting st3 \<and> \<not> isShuttingDown st3
            then snd (setTimeout (RestartAfterExit file) 5000 (mlog RestartingIn5Seconds st3))
            else st3))"

definition on_error :: "monitor \<Rightarrow> monitor" where
  "on_error st = (mlog FailedToStartChild st)\<lparr>currentProcess := None\<rparr>"

definition setupFileWatchers :: "nat \<Rightarrow> string \<Rightarrow> monitor \<Rightarrow> monitor" where
  "setupFileWatchers proc mainFile st =
     (let st1 = cleanupFileWatchers st;
          st2 = mlog (PluginsDirectory (path_join (srcDir st1) ''plugins''))
                  (mlog (SettingUpWatchers (srcDir st1)) st1);
          w = nextHandle st2;
          st3 = emit (Watch w) (st2\<lparr>nextHandle := Suc w\<rparr>)
      in st3\<lparr>fileWatchers := fileWatchers st3 @ [(w, proc, mainFile)]\<rparr>)"

definition on_message :: "nat \<Rightarrow> string \<Rightarrow> ipc_in \<Rightarrow> monitor \<Rightarrow> monitor" where
  "on_message proc file data st =
     (let st1 = mlog Received st in
      case data of
        MsgRestart \<Rightarrow> startApp file (mlog RestartCommandReceived st1)
      | MsgReady \<Rightarrow> setupFileWatchers proc file (mlog BotReady st1)
      | MsgOther \<Rightarrow> st1)"

text \<open>
  The callback given to \<open>watch\<close>. \<open>!filename\<close> holds for \<open>null\<close> and for the empty
  string; the regular expression \<open>/\.(ts|js)$/\<close> asks for one of the two endings.
\<close>

definition on_change :: "watcher \<Rightarrow> string \<Rightarrow> string option \<Rightarrow> monitor \<Rightarrow> monitor" where
  "on_change w eventType filename st =
     (case filename of
        None \<Rightarrow> st
      | Some name \<Rightarrow>
          if name = [] \<or> isShuttingDown st then st
          else if str_includes name ''node_modules''
                  \<or> \<not> (endsWith name ''.ts'' \<or> endsWith name ''.js'')
          then st
          else
            (let fullPath = path_join (srcDir st) name;
                 st1 = mlog (FileChangeDetected eventType fullPath) st;
                 st2 = (case debounceTimer st1 of
                          Some h \<Rightarrow> clearTimeout h st1
                        | None \<Rightarrow> st1);
                 (h, st3) = setTimeout (DebounceFire (fst (snd w)) (snd (snd w)) name)
                              DEBOUNCE_TIME st2
             in st3\<lparr>debounceTimer := Some h\<rparr>))"

text \<open>The body of the debounce timer, for the file name of the event that set it.\<close>

definition debounced :: "nat \<Rightarrow> string \<Rightarrow> string \<Rightarrow> monitor \<Rightarrow> monitor" where
  "debounced proc mainFile name st =
     (let fullPath = path_join (srcDir st) name in
      if startsWith name ''plugins/''
      then
        (let st1 = mlog (PluginChangeDetected name) st in
         if connected st1 proc
         then mlog (SentReloadCommand name) (emit (Send proc (ReloadPlugin fullPath)) st1)
         else mlog CannotReloadPlugin st1)
      else if name = basename mainFile \<or> name = ''index.ts'' \<or> str_includes name ''config''
      then startApp mainFile (mlog (CoreFileChangeDetected name) st)
      else
        (let st1 = mlog (NonPluginFileChanged name) st in
         if connected st1 proc
         then mlog (SentFileChangeNotification name)
                (emit (Send proc (FileChanged fullPath)) st1)
         else mlog CannotSendNotification st1))"

definition gracefulShutdown :: "monitor \<Rightarrow> monitor" where
  "gracefulShutdown st =
     (if isShuttingDown st then st
      else
        (let st1 = mlog InitiatingShutdown (st\<lparr>isShuttingDown := True\<rparr>);
             st2 = (case debounceTimer st1 of
                      Some h \<Rightarrow> (clearTimeout h st1)\<lparr>debounceTimer := None\<rparr>
                    | None \<Rightarrow> st1);
             st3 = cleanupFileWatchers st2
         in case currentProcess st3 of
              Some pid \<Rightarrow>
                (let (forceExitTimer, st4) = setTimeout ForceExit 5000 (mlog (TerminatingChild pid) st3)
                 in treeKill pid (KilledForShutdown forceExitTimer) st4)
            | None \<Rightarrow> process_exit 0 (mlog NoChildToTerminate st3)))"

text \<open>Running a timer's callback.\<close>

definition fire :: "callback \<Rightarrow> monitor \<Rightarrow> monitor" where
  "fire cb st =
     (case cb of
        RestartAfterKill file \<Rightarrow> startAppProcess file (st\<lparr>isRestarting := False\<rparr>)
      | RestartAfterExit file \<Rightarrow> startApp file st
      | DebounceFire proc mainFile name \<Rightarrow> debounced proc mainFile name st
      | ForceExit \<Rightarrow> process_exit 1 (mlog ForceExiting st))"

text \<open>
  The event loop. \<open>advance t\<close> lets the clock reach \<open>t\<close>: the timers due by then run in
  order of their due time (no callback of this program sets a timer, so the ones pending
  at the start are all there are), each only if it is still pending and the process has
  not exited. \<open>step\<close> delivers one event from outside; a closed watcher and a finished
  \<open>treeKill\<close> deliver nothing.
\<close>

definition fire_due :: "nat \<times> nat \<times> callback \<Rightarrow> monitor \<Rightarrow> monitor" where
  "fire_due tm st =
     (if exited st = None \<and> tm \<in> set (timers st)
      then fire (snd (snd tm))
             (st\<lparr>timers := remove1 tm (timers st), now := max (now st) (fst (snd tm))\<rparr>)
      else st)"

definition advance :: "nat \<Rightarrow> monitor \<Rightarrow> monitor" where
  "advance t st =
     (let due = sort_key (\<lambda>tm. fst (snd tm)) (filter (\<lambda>tm. fst (snd tm) \<le> t) (timers st));
          st' = fold fire_due due st
      in st'\<lparr>now := max (now st') t\<rparr>)"

datatype event =
    ProcMessage nat string ipc_in
  | ProcExit string "int option"
  | ProcError
  | KillFinished nat kill_callback bool
  | FsEvent watcher string "string option"
  | Signal

definition step :: "event \<Rightarrow> monitor \<Rightarrow> monitor" where
  "step e st =
     (if exited st \<noteq> None then st
      else
        (case e of
           ProcMessage proc file data \<Rightarrow> on_message proc file data st
         | ProcExit file code \<Rightarrow> on_exit file code st
         | ProcError \<Rightarrow> on_error st
         | KillFinished pid cb err \<Rightarrow>
             (if (pid, cb) \<in> set (kills st)
              then on_killed cb err (st\<lparr>kills := remove1 (pid, cb) (kills st)\<rparr>)
              else st)
         | FsEvent w eventType filename \<Rightarrow>
             (if w \<in> set (fileWatchers st) then on_change w eventType filename st else st)
         | Signal \<Rightarrow> gracefulShutdown st))"

fun run :: "(nat \<times> event) list \<Rightarrow> monitor \<Rightarrow> monitor" where
  "run [] st = st"
| "run ((t, e) # es) st = run es (step e (advance t st))"

section \<open>Notions used to state the properties\<close>

text \<open>
  The fallback of dispatch, said declaratively: the plugins are taken in list order up to
  and including the first whose hook resolves to \<open>true\<close>; each one that has a hook is
  called, and a rejecting hook is followed by its log entry.
\<close>

definition handled_by :: "SerializedMessage \<Rightarrow> Plugin \<Rightarrow> bool" where
  "handled_by m p =
     (case plugin_handleMessage p of None \<Rightarrow> False | Some hook \<Rightarrow> hook m = HookReturns True)"

definition hook_effects :: "SerializedMessage \<Rightarrow> Plugin \<Rightarrow> effect list" where
  "hook_effects m p =
     (case plugin_handleMessage p of
        None \<Rightarrow> []
      | Some hook \<Rightarrow>
          if hook m = HookThrows then [CallHook p, Log ErrorInMessageHandler] else [CallHook p])"

definition fallback_order :: "Plugin list \<Rightarrow> SerializedMessage \<Rightarrow> effect list" where
  "fallback_order ps m =
     concat (map (hook_effects m)
       (takeWhile (\<lambda>p. \<not> handled_by m p) ps @ take 1 (dropWhile (\<lambda>p. \<not> handled_by m p) ps)))"

text \<open>
  The module files below a directory listing, in the order of the listing, each with the
  chain of directory names that leads to it; and the descriptor of such a file under a
  root whose own files get category \<open>cat\<close>: the category is the last name of the chain.
\<close>

fun code_files :: "dirent list \<Rightarrow> (string list \<times> string) list" where
  "code_files [] = []"
| "code_files (FileEnt name # items) =
     (if endsWith name ''.ts'' \<or> endsWith name ''.js'' then [([], name)] else [])
       @ code_files items"
| "code_files (DirEnt name None # items) = code_files items"
| "code_files (DirEnt name (Some sub) # items) =
     map (\<lambda>(dirs, file). (name # dirs, file)) (code_files sub) @ code_files items"
| "code_files (OtherEnt name # items) = code_files items"

definition descriptor_at :: "string \<Rightarrow> string option \<Rightarrow> string list \<times> string \<Rightarrow> PluginMetadata" where
  "descriptor_at root cat entry =
     \<lparr>filePath = foldl path_join root (fst entry @ [snd entry]),
      category = (if fst entry = [] then cat else Some (last (fst entry))),
      loaded = False, plugin = None\<rparr>"

text \<open>What a module's export registers through the context, and the plugin it yields.\<close>

definition imperative_of :: "plugin_export \<Rightarrow> CommandHandler list" where
  "imperative_of e = (case e of ExportFactory imperative ending \<Rightarrow> imperative | _ \<Rightarrow> [])"

definition exported_plugin :: "plugin_export \<Rightarrow> Plugin option" where
  "exported_plugin e =
     (case e of
        NoDefault \<Rightarrow> None
      | ExportObject p \<Rightarrow> Some p
      | ExportFactory imperative ending \<Rightarrow> ending)"

text \<open>
  A burst of change events for one watcher: (time, file name) pairs. \<open>code_file\<close> is the
  filter of the watch callback. \<open>spaced\<close> says that the times do not decrease and that
  each event comes less than the debounce time after the one before. \<open>armed\<close> is the
  supervisor after such a burst: one log line per event, and one pending timer, set
  by the last event.
\<close>

definition code_file :: "string \<Rightarrow> bool" where
  "code_file name =
     (name \<noteq> [] \<and> \<not> str_includes name ''node_modules''
      \<and> (endsWith name ''.ts'' \<or> endsWith name ''.js''))"

fun spaced :: "nat list \<Rightarrow> bool" where
  "spaced (t # t' # ts) = (t \<le> t' \<and> t' < t + DEBOUNCE_TIME \<and> spaced (t' # ts))"
| "spaced ts = True"

definition burst_events :: "watcher \<Rightarrow> string \<Rightarrow> (nat \<times> string) list \<Rightarrow> (nat \<times> event) list" where
  "burst_events w eventType burst = map (\<lambda>(t, name). (t, FsEvent w eventType (Some name))) burst"

definition change_logs :: "monitor \<Rightarrow> string \<Rightarrow> (nat \<times> string) list \<Rightarrow> monitor_effect list" where
  "change_logs st eventType burst =
     map (\<lambda>(t, name). Logged (FileChangeDetected eventType (path_join (srcDir st) name))) burst"

definition armed :: "monitor \<Rightarrow> watcher \<Rightarrow> string \<Rightarrow> (nat \<times> string) list \<Rightarrow> monitor" where
  "armed st w eventType burst =
     st\<lparr>now := fst (last burst),
        trace := trace st @ change_logs st eventType burst,
        timers := [(nextHandle st + length burst - 1, fst (last burst) + DEBOUNCE_TIME,
                    DebounceFire (fst (snd w)) (snd (snd w)) (snd (last burst)))],
        debounceTimer := Some (nextHandle st + length burst - 1),
        nextHandle := nextHandle st + length burst\<rparr>"

section \<open>Example plugins, trees and supervisor states\<close>

definition empty_loader :: "string \<Rightarrow> PluginLoader" where
  "empty_loader dir =
     \<lparr>commands = Map.empty, pluginMetadata = [], loadedPlugins = [], pluginsDir = dir, logs = []\<rparr>"

definition handler_of :: "string list \<Rightarrow> string \<Rightarrow> result \<Rightarrow> CommandHandler" where
  "handler_of tokens descr outcome =
     \<lparr>cmd_commands = tokens, cmd_description = Some descr, cmd_category = None,
      cmd_handler = (\<lambda>m args. outcome)\<rparr>"

text \<open>\<open>PluginLoader.createPlugin\<close> with its default version and author.\<close>

definition plugin_of ::
    "string \<Rightarrow> CommandHandler list option \<Rightarrow> result option \<Rightarrow> hook_result option \<Rightarrow> Plugin" where
  "plugin_of name cmds ini hook =
     \<lparr>info_name = name, info_version = ''1.0.0'', info_author = ''Bot User'',
      info_description = None, plugin_category = None, init = ini,
      plugin_commands = cmds, plugin_handleMessage = map_option (\<lambda>r m. r) hook\<rparr>"

definition message_of :: "string option \<Rightarrow> SerializedMessage" where
  "message_of c = \<lparr>msg_command = c, msg_args = None, reply = (\<lambda>text. Returns)\<rparr>"

definition env_of :: "(string \<Rightarrow> import_result) \<Rightarrow> (string \<Rightarrow> bool) \<Rightarrow> node_env" where
  "env_of modules present =
     \<lparr>normalize = (\<lambda>p. p), relative = (\<lambda>from to. drop (Suc (length from)) to),
      dirname = (\<lambda>p. rev (drop 1 (dropWhile (\<lambda>c. c \<noteq> CHR ''/'') (rev p)))),
      existsSync = present, resolves = present, importModule = modules\<rparr>"

text \<open>A plugins root with the two module files \<open>utility/a.ts\<close> and \<open>utility/b.ts\<close>.\<close>

definition two_files :: "dirent list option option" where
  "two_files = Some (Some [DirEnt ''utility'' (Some [FileEnt ''a.ts'', FileEnt ''b.ts''])])"

definition modules_ab :: "plugin_export \<Rightarrow> plugin_export \<Rightarrow> string \<Rightarrow> import_result" where
  "modules_ab a b p =
     (if p = ''plugins/utility/a.ts'' then Module a
      else if p = ''plugins/utility/b.ts'' then Module b else ImportFails)"

text \<open>Discovery of that root, then the load of \<open>a.ts\<close>, then the load of \<open>b.ts\<close>.\<close>

definition loaded_ab :: "plugin_export \<Rightarrow> plugin_export \<Rightarrow> PluginLoader" where
  "loaded_ab a b =
     (let env = env_of (modules_ab a b) (\<lambda>p. True);
          L0 = discoverPlugins (empty_loader ''plugins'') two_files
      in loadPlugin env (loadPlugin env L0 0) 1)"

definition pingHandler :: CommandHandler where
  "pingHandler = handler_of [''ping'', ''pong''] ''Check if bot is responsive'' Returns"

definition pingPlugin :: Plugin where
  "pingPlugin = plugin_of ''Ping Plugin'' (Some [pingHandler]) None None"

definition helpHandler :: CommandHandler where
  "helpHandler = handler_of [''help'', ''menu''] ''Show help'' Throws"

definition helpPlugin :: Plugin where
  "helpPlugin = plugin_of ''Help System'' (Some [helpHandler]) None (Some (HookReturns True))"

definition blankHandler :: CommandHandler where
  "blankHandler = handler_of [[]] ''bare prefix'' Returns"

definition blankPlugin :: Plugin where
  "blankPlugin = plugin_of ''Blank'' (Some [blankHandler]) None None"

definition echoPlugin :: Plugin where
  "echoPlugin = plugin_of ''Echo'' None None (Some (HookReturns True))"

definition throwPlugin :: Plugin where
  "throwPlugin = plugin_of ''Faulty'' None None (Some HookThrows)"

definition tableHandler :: CommandHandler where
  "tableHandler = handler_of [''PING'', ''serve''] ''Serve a ball'' Returns"

definition tablePlugin :: Plugin where
  "tablePlugin = plugin_of ''Table Tennis'' (Some [tableHandler]) None None"

definition rejectingPlugin :: Plugin where
  "rejectingPlugin =
     plugin_of ''Broken'' (Some [handler_of [''boom''] ''never registered'' Returns])
       (Some Throws) None"

definition doubleHandler :: CommandHandler where
  "doubleHandler = handler_of [''x''] ''registered twice'' Returns"

definition doublePlugin :: Plugin where
  "doublePlugin = plugin_of ''Both'' (Some [doubleHandler]) (Some Throws) None"

definition doubleExport :: plugin_export where
  "doubleExport = ExportFactory [doubleHandler] (Some doublePlugin)"

definition lateHandler :: CommandHandler where
  "lateHandler = handler_of [''Late'', ''ping''] ''registered by the factory'' Returns"

definition latePlugin :: Plugin where
  "latePlugin = plugin_of ''Late'' None (Some Throws) None"

definition lateExport :: plugin_export where
  "lateExport = ExportFactory [lateHandler] (Some latePlugin)"

definition nested_tree :: "dirent list option option" where
  "nested_tree =
     Some (Some [FileEnt ''root.ts'',
                 DirEnt ''fun'' (Some [FileEnt ''joke.js'', FileEnt ''notes.md'',
                                       DirEnt ''games'' (Some [FileEnt ''dice.ts''])])])"

definition initial_monitor :: monitor where
  "initial_monitor =
     \<lparr>currentProcess = None, fileWatchers = [], isRestarting = False, debounceTimer = None,
      isShuttingDown = False, now = 0, timers = [], kills = [], connected = (\<lambda>p. False),
      nextHandle = 0, cwd = ''/bot'', exited = None, trace = []\<rparr>"

text \<open>The supervisor after \<open>startApp\<close> and the worker's \<open>ready\<close> message.\<close>

definition booted :: monitor where
  "booted =
     step (ProcMessage 0 ''src/index.ts'' MsgReady) (startApp ''src/index.ts'' initial_monitor)"

definition ping_burst :: "(nat \<times> string) list" where
  "ping_burst = [(10, ''plugins/utility/ping.ts''), (120, ''plugins/utility/ping.ts''),
                 (400, ''plugins/utility/ping.ts'')]"

section \<open>Frame lemmas\<close>

lemma log_fields [simp]:
  "commands (log e L) = commands L"
  "pluginMetadata (log e L) = pluginMetadata L"
  "loadedPlugins (log e L) = loadedPlugins L"
  "pluginsDir (log e L) = pluginsDir L"
  by (simp_all add: log_def)

lemma registerTokens_frame [simp]:
  "pluginMetadata (registerTokens L h cs) = pluginMetadata L"
  "loadedPlugins (registerTokens L h cs) = loadedPlugins L"
  "pluginsDir (registerTokens L h cs) = pluginsDir L"
  by (induction cs arbitrary: L) (simp_all add: Let_def)

lemma registerCommands_frame [simp]:
  "pluginMetadata (registerCommands L hs) = pluginMetadata L"
  "loadedPlugins (registerCommands L hs) = loadedPlugins L"
  "pluginsDir (registerCommands L hs) = pluginsDir L"
  by (induction hs arbitrary: L) simp_all

lemma registerImperative_frame [simp]:
  "pluginMetadata (registerImperative L hs) = pluginMetadata L"
  "loadedPlugins (registerImperative L hs) = loadedPlugins L"
  "pluginsDir (registerImperative L hs) = pluginsDir L"
  by (induction hs arbitrary: L) simp_all

section \<open>The command registry\<close>

lemma registerTokens_commands:
  "commands (registerTokens L h cs) t =
     (case commands L t of
        Some g \<Rightarrow> Some g
      | None \<Rightarrow> if t \<in> toLowerCase ` set cs then Some h else None)"
  by (induction cs arbitrary: L) (auto simp: Let_def split: option.splits)

lemma registerCommands_commands:
  "commands (registerCommands L hs) t =
     (case commands L t of
        Some g \<Rightarrow> Some g
      | None \<Rightarrow> find (\<lambda>h. t \<in> toLowerCase ` set (cmd_commands h)) hs)"
  by (induction hs arbitrary: L) (auto simp: registerTokens_commands split: option.splits)

lemma registerCommands_keeps:
  "commands L t = Some g \<Longrightarrow> commands (registerCommands L hs) t = Some g"
  by (simp add: registerCommands_commands)

lemma registerCommands_append:
  "registerCommands L (xs @ ys) = registerCommands (registerCommands L xs) ys"
  by (induction xs arbitrary: L) simp_all

lemma registerImperative_eq: "registerImperative L hs = registerCommands L hs"
proof (induction hs arbitrary: L)
  case Nil
  show ?case by simp
next
  case (Cons h hs)
  have "registerCommands L (h # hs) = registerCommands (registerCommands L [h]) hs"
    using registerCommands_append [of L "[h]" hs] by simp
  with Cons show ?case by simp
qed

text \<open>
  Claim C1. After any sequence of registrations, a normalized token maps to the handler
  it had before if it had one, and otherwise to the first handler of the sequence that
  lists a token with that lower-case form (to nothing if there is none). So a handler
  whose token is taken leaves that entry as it is and still gets its other tokens.
  Registering in several calls is registering the concatenated sequence in one.
  \<open>registerCommands\<close> has no failing branch: it always returns the updated loader, and
  it changes neither the descriptors nor the loaded plugins.
\<close>

theorem registerCommands_first_registrant:
  "commands (registerCommands L hs) t =
     (case commands L t of
        Some g \<Rightarrow> Some g
      | None \<Rightarrow> find (\<lambda>h. t \<in> toLowerCase ` set (cmd_commands h)) hs)
   \<and> registerCommands (registerCommands L hs) hs' = registerCommands L (hs @ hs')
   \<and> pluginMetadata (registerCommands L hs) = pluginMetadata L
   \<and> loadedPlugins (registerCommands L hs) = loadedPlugins L"
  by (simp add: registerCommands_commands registerCommands_append)

theorem registerCommands_first_registrant_witness:
  "commands (registerCommands (empty_loader ''plugins'') [pingHandler, tableHandler]) ''ping''
     = Some pingHandler
   \<and> commands (registerCommands (empty_loader ''plugins'') [pingHandler, tableHandler]) ''serve''
     = Some tableHandler
   \<and> commands (registerCommands (empty_loader ''plugins'') [pingHandler, tableHandler]) ''help''
     = None"
  using registerCommands_first_registrant
          [of "empty_loader ''plugins''" "[pingHandler, tableHandler]" "''ping''"]
        registerCommands_first_registrant
          [of "empty_loader ''plugins''" "[pingHandler, tableHandler]" "''serve''"]
        registerCommands_first_registrant
          [of "empty_loader ''plugins''" "[pingHandler, tableHandler]" "''help''"]
  by (simp add: empty_loader_def pingHandler_def tableHandler_def handler_of_def
        toLowerCase_def lower_char_def)

section \<open>Dispatch\<close>

text \<open>
  Claim C2, amended. For a message whose command is a non-empty string that resolves,
  lower-cased, to a registered handler, dispatch calls that handler with the message's
  arguments and nothing else when it returns; when it throws, the error is logged, the
  failure notice is sent through the message's reply, and the dispatch ends as that reply
  ends. In neither case is a generic hook of any plugin called.
\<close>

theorem handleMessage_command_precedence:
  assumes "msg_command m = Some c" and "c \<noteq> []"
    and "commands L (toLowerCase c) = Some h"
  shows "handleMessage L m =
           (case cmd_handler h m (case msg_args m of None \<Rightarrow> [] | Some a \<Rightarrow> a) of
              Returns \<Rightarrow>
                ([CallCommand h (case msg_args m of None \<Rightarrow> [] | Some a \<Rightarrow> a)], Returns)
            | Throws \<Rightarrow>
                ([CallCommand h (case msg_args m of None \<Rightarrow> [] | Some a \<Rightarrow> a),
                  Log (ErrorHandlingCommand c), Reply failure_notice],
                 reply m failure_notice))
         \<and> (\<forall>p. CallHook p \<notin> set (fst (handleMessage L m)))"
  using assms by (auto simp: handleMessage_def Let_def split: result.splits)

theorem handleMessage_command_precedence_witness:
  "msg_command (message_of (Some ''MENU'')) = Some ''MENU'' \<and> ''MENU'' \<noteq> []
   \<and> commands (loaded_ab (ExportObject pingPlugin) (ExportObject helpPlugin))
        (toLowerCase ''MENU'')
       = Some (helpHandler\<lparr>cmd_category := Some ''utility''\<rparr>)
   \<and> handleMessage (loaded_ab (ExportObject pingPlugin) (ExportObject helpPlugin))
        (message_of (Some ''MENU''))
       = ([CallCommand (helpHandler\<lparr>cmd_category := Some ''utility''\<rparr>) [],
           Log (ErrorHandlingCommand ''MENU''), Reply failure_notice], Returns)"
proof -
  have h1: "msg_command (message_of (Some ''MENU'')) = Some ''MENU''"
    by (simp add: message_of_def)
  have h2: "''MENU'' \<noteq> []" by simp
  have h3: "commands (loaded_ab (ExportObject pingPlugin) (ExportObject helpPlugin))
              (toLowerCase ''MENU'')
            = Some (helpHandler\<lparr>cmd_category := Some ''utility''\<rparr>)"
    by (simp add: loaded_ab_def env_of_def modules_ab_def two_files_def empty_loader_def discoverPlugins_def
          loadPlugin_def finishLoad_def log_def Let_def endsWith_def path_join_def toLowerCase_def
          lower_char_def plugin_of_def handler_of_def
          pingPlugin_def pingHandler_def helpPlugin_def helpHandler_def)
  show ?thesis
    using h1 h2 h3 handleMessage_command_precedence [OF h1 h2 h3]
    by (simp add: helpHandler_def handler_of_def message_of_def)
qed

text \<open>
  Claim C2 as stated fails on the empty command. A plugin registers the empty token and
  is loaded, so the command field \<open>""\<close> of a message resolves to its handler; but
  \<open>if (command)\<close> is false for the empty string, and dispatch calls the generic hook of
  the second plugin instead of the command handler.
\<close>

theorem handleMessage_empty_command_counterexample:
  "msg_command (message_of (Some [])) = Some []
   \<and> commands (loaded_ab (ExportObject blankPlugin) (ExportObject echoPlugin)) (toLowerCase [])
       = Some (blankHandler\<lparr>cmd_category := Some ''utility''\<rparr>)
   \<and> fst (handleMessage (loaded_ab (ExportObject blankPlugin) (ExportObject echoPlugin))
            (message_of (Some [])))
       = [CallHook (echoPlugin\<lparr>plugin_category := Some ''utility''\<rparr>)]"
  by (simp add: loaded_ab_def env_of_def modules_ab_def two_files_def empty_loader_def discoverPlugins_def
          loadPlugin_def finishLoad_def log_def Let_def endsWith_def path_join_def toLowerCase_def
          lower_char_def plugin_of_def handler_of_def
          blankPlugin_def blankHandler_def echoPlugin_def handleMessage_def message_of_def)

lemma messageHandlers_order: "messageHandlers ps m = fallback_order ps m"
proof (induction ps)
  case Nil
  show ?case by (simp add: fallback_order_def)
next
  case (Cons p ps)
  show ?case
  proof (cases "plugin_handleMessage p")
    case None
    with Cons show ?thesis
      by (simp add: fallback_order_def handled_by_def hook_effects_def)
  next
    case (Some hook)
    with Cons show ?thesis
      by (cases "hook m") (auto simp: fallback_order_def handled_by_def hook_effects_def)
  qed
qed

lemma finishLoad_loadedPlugins:
  "i < length (pluginMetadata L) \<Longrightarrow> \<not> loaded (pluginMetadata L ! i) \<Longrightarrow>
   loadedPlugins (finishLoad L i p) =
     loadedPlugins L @
       (if loaded (pluginMetadata (finishLoad L i p) ! i)
        then [the (plugin (pluginMetadata (finishLoad L i p) ! i))] else [])"
  by (auto simp: finishLoad_def Let_def split: option.splits)

lemma loadPlugin_loadedPlugins:
  "loadedPlugins (loadPlugin env L i) =
     loadedPlugins L @
       (if i < length (pluginMetadata L) \<and> \<not> loaded (pluginMetadata L ! i)
           \<and> loaded (pluginMetadata (loadPlugin env L i) ! i)
        then [the (plugin (pluginMetadata (loadPlugin env L i) ! i))] else [])"
proof (cases "i < length (pluginMetadata L) \<and> \<not> loaded (pluginMetadata L ! i)")
  case False
  then show ?thesis by (auto simp: loadPlugin_def Let_def)
next
  case True
  then have i: "i < length (pluginMetadata L)" and nl: "\<not> loaded (pluginMetadata L ! i)"
    by simp_all
  show ?thesis
  proof (cases "importModule env (filePath (pluginMetadata L ! i))")
    case ImportFails
    with i nl show ?thesis by (simp add: loadPlugin_def Let_def)
  next
    case (Module e)
    show ?thesis
    proof (cases e)
      case NoDefault
      with Module i nl show ?thesis by (simp add: loadPlugin_def Let_def)
    next
      case (ExportObject p)
      with Module i nl finishLoad_loadedPlugins [of i L p] show ?thesis
        by (simp add: loadPlugin_def Let_def)
    next
      case (ExportFactory imp ending)
      show ?thesis
      proof (cases ending)
        case None
        with ExportFactory Module i nl show ?thesis by (simp add: loadPlugin_def Let_def)
      next
        case (Some p)
        with ExportFactory Module i nl
          finishLoad_loadedPlugins [of i "registerImperative L imp" p]
        show ?thesis by (simp add: loadPlugin_def Let_def)
      qed
    qed
  qed
qed

text \<open>
  Claim C3. When the message has no command, or an empty one, or one whose lower-cased
  token is not registered, dispatch goes through \<open>loadedPlugins\<close> in list order: each
  plugin with a hook is called until one resolves to \<open>true\<close>, a rejecting hook is logged
  and the next plugin is tried, and the dispatch itself resolves. The list is in load
  order: a load that succeeds puts its plugin at the end, any other leaves the list as
  it is.
\<close>

theorem handleMessage_fallback_order:
  assumes "case msg_command m of None \<Rightarrow> True
           | Some c \<Rightarrow> c = [] \<or> commands L (toLowerCase c) = None"
  shows "handleMessage L m = (fallback_order (loadedPlugins L) m, Returns)
         \<and> loadedPlugins (loadPlugin env L i) =
             loadedPlugins L @
               (if i < length (pluginMetadata L) \<and> \<not> loaded (pluginMetadata L ! i)
                   \<and> loaded (pluginMetadata (loadPlugin env L i) ! i)
                then [the (plugin (pluginMetadata (loadPlugin env L i) ! i))] else [])"
proof -
  have "handleMessage L m = (messageHandlers (loadedPlugins L) m, Returns)"
    using assms by (auto simp: handleMessage_def Let_def split: option.splits)
  then show ?thesis
    by (simp only: messageHandlers_order loadPlugin_loadedPlugins [symmetric] simp_thms)
qed

theorem handleMessage_fallback_order_witness:
  "(case msg_command (message_of (Some ''dance'')) of None \<Rightarrow> True
    | Some c \<Rightarrow> c = [] \<or> commands (loaded_ab (ExportObject throwPlugin) (ExportObject helpPlugin))
                             (toLowerCase c) = None)
   \<and> handleMessage (loaded_ab (ExportObject throwPlugin) (ExportObject helpPlugin))
        (message_of (Some ''dance''))
       = ([CallHook (throwPlugin\<lparr>plugin_category := Some ''utility''\<rparr>),
           Log ErrorInMessageHandler,
           CallHook (helpPlugin\<lparr>plugin_category := Some ''utility'',
                       plugin_commands := Some [helpHandler\<lparr>cmd_category := Some ''utility''\<rparr>]\<rparr>)],
          Returns)"
proof -
  have h: "case msg_command (message_of (Some ''dance'')) of None \<Rightarrow> True
    | Some c \<Rightarrow> c = [] \<or> commands (loaded_ab (ExportObject throwPlugin) (ExportObject helpPlugin))
                             (toLowerCase c) = None"
    by (simp add: loaded_ab_def env_of_def modules_ab_def two_files_def empty_loader_def discoverPlugins_def
          loadPlugin_def finishLoad_def log_def Let_def endsWith_def path_join_def toLowerCase_def
          lower_char_def plugin_of_def handler_of_def
          throwPlugin_def helpPlugin_def helpHandler_def message_of_def)
  show ?thesis
    using h handleMessage_fallback_order [OF h]
    by (simp add: loaded_ab_def env_of_def modules_ab_def two_files_def empty_loader_def discoverPlugins_def
          loadPlugin_def finishLoad_def log_def Let_def endsWith_def path_join_def toLowerCase_def
          lower_char_def plugin_of_def handler_of_def
          throwPlugin_def helpPlugin_def helpHandler_def message_of_def handleMessage_def fallback_order_def handled_by_def hook_effects_def)
qed

section \<open>Discovery\<close>

lemma discover_metadata:
  "pluginMetadata (discoverDirectory L dirPath cat listing) =
     pluginMetadata L @
       (case listing of
          None \<Rightarrow> []
        | Some items \<Rightarrow> map (descriptor_at dirPath cat) (code_files items))"
  "pluginMetadata (discoverItems L dirPath cat items) =
     pluginMetadata L @ map (descriptor_at dirPath cat) (code_files items)"
proof (induction L dirPath cat listing and L dirPath cat items
       rule: discoverDirectory_discoverItems.induct)
  case (5 L dirPath cat name sub items)
  show ?case
  proof (cases sub)
    case None
    with 5 show ?thesis by simp
  next
    case (Some subitems)
    have "map (descriptor_at (path_join dirPath name) (Some name)) (code_files subitems)
          = map (descriptor_at dirPath cat)
              (map (\<lambda>(dirs, file). (name # dirs, file)) (code_files subitems))"
      by (auto simp: descriptor_at_def)
    with 5 Some show ?thesis by simp
  qed
qed (simp_all add: descriptor_at_def)

text \<open>
  What discovery computes: one unloaded descriptor per module file found under the
  plugins root, in listing order, whose category is the name of the directory that
  directly contains the file (the last name on the way from the root), none for a file
  directly in the root.
\<close>

lemma discover_descriptors:
  "pluginMetadata (discoverPlugins L (Some (Some items))) =
     pluginMetadata L @ map (descriptor_at (pluginsDir L) None) (code_files items)"
  by (simp add: discoverPlugins_def Let_def discover_metadata(2))

text \<open>
  Claim C4 at a failing input: the file \<open>plugins/fun/games/dice.ts\<close>, two levels below
  the root. Its first directory below the root is \<open>fun\<close>, and discovery gives its
  descriptor the category \<open>games\<close>, the name of its own directory. \<open>reloadPlugin\<close>, given
  the same path while it is unknown to the loader, takes the first segment of the
  relative directory and gives the descriptor the category \<open>fun\<close>, as the claim says.
\<close>

theorem discover_nested_category_is_own_directory:
  "filePath (pluginMetadata (discoverPlugins (empty_loader ''plugins'') nested_tree) ! 2)
     = ''plugins/fun/games/dice.ts''
   \<and> category (pluginMetadata (discoverPlugins (empty_loader ''plugins'') nested_tree) ! 2)
       = Some ''games''
   \<and> category (pluginMetadata (discoverPlugins (empty_loader ''plugins'') nested_tree) ! 2)
       \<noteq> Some ''fun''
   \<and> map (\<lambda>d. (filePath d, category d))
         (pluginMetadata (fst (reloadPlugin (env_of (\<lambda>p. ImportFails) (\<lambda>p. True))
            (empty_loader ''plugins'') ''plugins/fun/games/dice.ts'')))
       = [(''plugins/fun/games/dice.ts'', Some ''fun'')]"
  by (simp add: nested_tree_def empty_loader_def discoverPlugins_def log_def endsWith_def
        path_join_def reloadPlugin_def loadPlugin_def env_of_def first_segment_def Let_def)

section \<open>Reload and unload\<close>

text \<open>
  What \<open>reloadPlugin\<close> answers does not depend on what the load step did: it is
  \<open>false\<close> only for an unknown path whose file does not exist.
\<close>

lemma reloadPlugin_result:
  "snd (reloadPlugin env L path) =
     (case findIndex (\<lambda>meta. normalize env (filePath meta) = normalize env path)
             (pluginMetadata L) of
        None \<Rightarrow> Resolved (existsSync env path)
      | Some metaIndex \<Rightarrow> if resolves env path then Resolved True else Rejected)"
  by (simp add: reloadPlugin_def Let_def split: option.splits)

text \<open>
  Claim C5 at a failing input. First: the path of a new module whose \<open>init\<close> rejects.
  The load fails and is logged, the descriptor stays unloaded and nothing is registered,
  yet \<open>reloadPlugin\<close> resolves to \<open>true\<close>. Second: a loaded plugin whose file is
  gone, so that \<open>require.resolve\<close> throws: the promise rejects.
\<close>

theorem reloadPlugin_true_after_failed_load:
  "reloadPlugin (env_of (modules_ab (ExportObject rejectingPlugin) NoDefault) (\<lambda>p. True))
       (empty_loader ''plugins'') ''plugins/utility/a.ts''
     = (\<lparr>commands = Map.empty,
         pluginMetadata = [\<lparr>filePath = ''plugins/utility/a.ts'', category = Some ''utility'',
                            loaded = False, plugin = None\<rparr>],
         loadedPlugins = [], pluginsDir = ''plugins'',
         logs = [ErrorLoadingPlugin ''plugins/utility/a.ts'']\<rparr>,
        Resolved True)
   \<and> snd (reloadPlugin (env_of (modules_ab (ExportObject pingPlugin) NoDefault) (\<lambda>p. False))
        (loaded_ab (ExportObject pingPlugin) NoDefault) ''plugins/utility/a.ts'') = Rejected"
  by (simp add: loaded_ab_def env_of_def modules_ab_def two_files_def empty_loader_def discoverPlugins_def
          loadPlugin_def finishLoad_def log_def Let_def endsWith_def path_join_def toLowerCase_def
          lower_char_def plugin_of_def handler_of_def
          rejectingPlugin_def pingPlugin_def pingHandler_def reloadPlugin_def unloadPlugin_def first_segment_def)

text \<open>
  What a successful unload does to the registry: every token that the plugin's handlers
  declare is deleted, whichever handler the entry pointed at.
\<close>

lemma delete_fold_apply:
  "fold (\<lambda>command r'. r'(toLowerCase command := None)) cs r t =
     (if t \<in> toLowerCase ` set cs then None else r t)"
  by (induction cs arbitrary: r) auto

lemma deleteTokens_apply:
  "deleteTokens reg hs t =
     (if t \<in> toLowerCase ` (\<Union>h \<in> set hs. set (cmd_commands h)) then None else reg t)"
  unfolding deleteTokens_def
  by (induction hs arbitrary: reg) (auto simp: delete_fold_apply)

lemma unloadPlugin_commands:
  assumes "findIndex (\<lambda>meta. normalize env (filePath meta) = normalize env path)
             (pluginMetadata L) = Some i"
    and "loaded (pluginMetadata L ! i)" and "plugin (pluginMetadata L ! i) = Some p"
  shows "snd (unloadPlugin env L path) = True"
    and "commands (fst (unloadPlugin env L path)) =
           (case plugin_commands p of
              None \<Rightarrow> commands L
            | Some hs \<Rightarrow> deleteTokens (commands L) hs)"
  using assms by (simp_all add: unloadPlugin_def Let_def split: option.splits)

text \<open>
  Claim C6 at a failing input. The ping plugin is loaded first and owns \<open>ping\<close>; the
  second plugin declares \<open>PING\<close> (which collided and was skipped) and \<open>serve\<close>. Unloading
  the second plugin succeeds and deletes the entry \<open>ping\<close>, which pointed at the
  handler of the first plugin, while the first plugin stays loaded.
\<close>

theorem unloadPlugin_removes_other_plugins_command:
  "commands (loaded_ab (ExportObject pingPlugin) (ExportObject tablePlugin)) ''ping''
     = Some (pingHandler\<lparr>cmd_category := Some ''utility''\<rparr>)
   \<and> snd (unloadPlugin (env_of (modules_ab (ExportObject pingPlugin) (ExportObject tablePlugin))
             (\<lambda>p. True))
        (loaded_ab (ExportObject pingPlugin) (ExportObject tablePlugin))
        ''plugins/utility/b.ts'') = True
   \<and> commands (fst (unloadPlugin
          (env_of (modules_ab (ExportObject pingPlugin) (ExportObject tablePlugin)) (\<lambda>p. True))
          (loaded_ab (ExportObject pingPlugin) (ExportObject tablePlugin))
          ''plugins/utility/b.ts'')) ''ping'' = None
   \<and> map info_name (loadedPlugins (fst (unloadPlugin
          (env_of (modules_ab (ExportObject pingPlugin) (ExportObject tablePlugin)) (\<lambda>p. True))
          (loaded_ab (ExportObject pingPlugin) (ExportObject tablePlugin))
          ''plugins/utility/b.ts''))) = [''Ping Plugin'']"
  by (simp add: loaded_ab_def env_of_def modules_ab_def two_files_def empty_loader_def discoverPlugins_def
          loadPlugin_def finishLoad_def log_def Let_def endsWith_def path_join_def toLowerCase_def
          lower_char_def plugin_of_def handler_of_def
          pingPlugin_def pingHandler_def tablePlugin_def tableHandler_def unloadPlugin_def deleteTokens_def)

section \<open>A load whose init hook rejects\<close>

lemma finishLoad_keeps:
  "commands L t = Some g \<Longrightarrow> commands (finishLoad L i p) t = Some g"
  by (auto simp: finishLoad_def Let_def registerCommands_keeps split: option.splits)

lemma loadPlugin_init_rejects:
  assumes "i < length (pluginMetadata L)" and "\<not> loaded (pluginMetadata L ! i)"
    and "importModule env (filePath (pluginMetadata L ! i)) = Module e"
    and "exported_plugin e = Some p" and "init p = Some Throws"
  shows "loadPlugin env L i =
           log (ErrorLoadingPlugin (filePath (pluginMetadata L ! i)))
             (registerCommands L (imperative_of e))"
proof (cases e)
  case NoDefault
  with assms show ?thesis by (simp add: exported_plugin_def)
next
  case (ExportObject q)
  with assms show ?thesis
    by (simp add: loadPlugin_def finishLoad_def exported_plugin_def imperative_of_def Let_def)
next
  case (ExportFactory imp ending)
  with assms show ?thesis
    by (simp add: loadPlugin_def finishLoad_def exported_plugin_def imperative_of_def Let_def
          registerImperative_eq)
qed

text \<open>
  Claim C7, amended. When the \<open>init\<close> hook of the plugin rejects, the load aborts: the
  descriptors are as before (its own stays unloaded), the plugin is not added to the
  loaded plugins, and the declared commands are not registered by the load. The registry
  is what it was plus what the factory registered through the context; it is unchanged
  when the factory registered nothing, and every entry present before still maps to the
  same handler, so the registrations of other plugins are untouched.
\<close>

theorem init_rejects_load_aborts:
  assumes "i < length (pluginMetadata L)" and "\<not> loaded (pluginMetadata L ! i)"
    and "importModule env (filePath (pluginMetadata L ! i)) = Module e"
    and "exported_plugin e = Some p" and "init p = Some Throws"
  shows "pluginMetadata (loadPlugin env L i) = pluginMetadata L
         \<and> loadedPlugins (loadPlugin env L i) = loadedPlugins L
         \<and> commands (loadPlugin env L i) = commands (registerCommands L (imperative_of e))
         \<and> (imperative_of e = [] \<longrightarrow> commands (loadPlugin env L i) = commands L)
         \<and> (\<forall>t g. commands L t = Some g \<longrightarrow> commands (loadPlugin env L i) t = Some g)"
  using loadPlugin_init_rejects [OF assms]
  by (auto simp: registerCommands_keeps)

theorem init_rejects_load_aborts_witness:
  "0 < length (pluginMetadata (loaded_ab (ExportObject rejectingPlugin) (ExportObject pingPlugin)))
   \<and> \<not> loaded (pluginMetadata
                 (loaded_ab (ExportObject rejectingPlugin) (ExportObject pingPlugin)) ! 0)
   \<and> commands (loaded_ab (ExportObject rejectingPlugin) (ExportObject pingPlugin)) ''boom''
       = None
   \<and> commands (loadPlugin
        (env_of (modules_ab (ExportObject rejectingPlugin) (ExportObject pingPlugin)) (\<lambda>p. True))
        (loaded_ab (ExportObject rejectingPlugin) (ExportObject pingPlugin)) 0) ''boom'' = None
   \<and> loadedPlugins (loadPlugin
        (env_of (modules_ab (ExportObject rejectingPlugin) (ExportObject pingPlugin)) (\<lambda>p. True))
        (loaded_ab (ExportObject rejectingPlugin) (ExportObject pingPlugin)) 0)
       = loadedPlugins (loaded_ab (ExportObject rejectingPlugin) (ExportObject pingPlugin))"
proof -
  let ?env = "env_of (modules_ab (ExportObject rejectingPlugin) (ExportObject pingPlugin))
                (\<lambda>p. True)"
  let ?L = "loaded_ab (ExportObject rejectingPlugin) (ExportObject pingPlugin)"
  have h1: "0 < length (pluginMetadata ?L)"
    by (simp add: loaded_ab_def env_of_def modules_ab_def two_files_def empty_loader_def discoverPlugins_def
          loadPlugin_def finishLoad_def log_def Let_def endsWith_def path_join_def toLowerCase_def
          lower_char_def plugin_of_def handler_of_def
          rejectingPlugin_def pingPlugin_def pingHandler_def)
  have h2: "\<not> loaded (pluginMetadata ?L ! 0)"
    by (simp add: loaded_ab_def env_of_def modules_ab_def two_files_def empty_loader_def discoverPlugins_def
          loadPlugin_def finishLoad_def log_def Let_def endsWith_def path_join_def toLowerCase_def
          lower_char_def plugin_of_def handler_of_def
          rejectingPlugin_def pingPlugin_def pingHandler_def)
  have h3: "importModule ?env (filePath (pluginMetadata ?L ! 0))
              = Module (ExportObject rejectingPlugin)"
    by (simp add: loaded_ab_def env_of_def modules_ab_def two_files_def empty_loader_def discoverPlugins_def
          loadPlugin_def finishLoad_def log_def Let_def endsWith_def path_join_def toLowerCase_def
          lower_char_def plugin_of_def handler_of_def
          rejectingPlugin_def pingPlugin_def pingHandler_def)
  have h4: "exported_plugin (ExportObject rejectingPlugin) = Some rejectingPlugin"
    by (simp add: exported_plugin_def)
  have h5: "init rejectingPlugin = Some Throws"
    by (simp add: rejectingPlugin_def plugin_of_def)
  have c: "commands ?L ''boom'' = None"
    by (simp add: loaded_ab_def env_of_def modules_ab_def two_files_def empty_loader_def discoverPlugins_def
          loadPlugin_def finishLoad_def log_def Let_def endsWith_def path_join_def toLowerCase_def
          lower_char_def plugin_of_def handler_of_def
          rejectingPlugin_def pingPlugin_def pingHandler_def)
  show ?thesis
    using h1 h2 c init_rejects_load_aborts [OF h1 h2 h3 h4 h5]
    by (simp add: imperative_of_def)
qed

text \<open>
  Claim C7 as stated fails for a plugin whose factory passes a handler to
  \<open>context.registerCommand\<close> and also lists it in \<open>commands\<close>: \<open>init\<close> rejects and the
  descriptor stays unloaded, but the declared command \<open>x\<close> is in the registry.
\<close>

theorem init_rejects_declared_present_counterexample:
  "exported_plugin doubleExport = Some doublePlugin
   \<and> init doublePlugin = Some Throws
   \<and> plugin_commands doublePlugin = Some [doubleHandler]
   \<and> cmd_commands doubleHandler = [''x'']
   \<and> commands (loadPlugin (env_of (modules_ab doubleExport NoDefault) (\<lambda>p. True))
        (discoverPlugins (empty_loader ''plugins'') two_files) 0) ''x'' = Some doubleHandler
   \<and> \<not> loaded (pluginMetadata
          (loadPlugin (env_of (modules_ab doubleExport NoDefault) (\<lambda>p. True))
             (discoverPlugins (empty_loader ''plugins'') two_files) 0) ! 0)"
  by (simp add: env_of_def modules_ab_def two_files_def empty_loader_def discoverPlugins_def
          loadPlugin_def finishLoad_def log_def Let_def endsWith_def path_join_def toLowerCase_def
          lower_char_def plugin_of_def handler_of_def
          doubleExport_def doublePlugin_def doubleHandler_def exported_plugin_def)

text \<open>
  Claim C10. The handlers that a factory passes to \<open>context.registerCommand\<close> are
  registered, under the registry's first-registrant rule, while the factory runs, before
  \<open>init\<close> is awaited: whatever the load does next, every entry they made is still
  there at its end, for the same handler (its category apart). In particular, when \<open>init\<close> then rejects, the registry is exactly
  the earlier one extended by these handlers, although the descriptor stays unloaded and
  the plugin is not among the loaded plugins.
\<close>

theorem imperative_registration_survives_failed_init:
  assumes "i < length (pluginMetadata L)" and "\<not> loaded (pluginMetadata L ! i)"
    and "importModule env (filePath (pluginMetadata L ! i))
           = Module (ExportFactory imperative ending)"
  shows "(\<forall>t g. commands (registerCommands L imperative) t = Some g
                \<longrightarrow> (\<exists>g'. commands (loadPlugin env L i) t = Some g'
                           \<and> g'\<lparr>cmd_category := cmd_category g\<rparr> = g))
         \<and> ((\<exists>p. ending = Some p \<and> init p = Some Throws) \<longrightarrow>
              commands (loadPlugin env L i) = commands (registerCommands L imperative)
              \<and> (\<forall>t. commands (loadPlugin env L i) t =
                    (case commands L t of
                       Some g \<Rightarrow> Some g
                     | None \<Rightarrow> find (\<lambda>h. t \<in> toLowerCase ` set (cmd_commands h)) imperative))
              \<and> \<not> loaded (pluginMetadata (loadPlugin env L i) ! i)
              \<and> loadedPlugins (loadPlugin env L i) = loadedPlugins L)"
proof -
  have "\<forall>t g. commands (registerCommands L imperative) t = Some g
                \<longrightarrow> commands (loadPlugin env L i) t = Some g"
    using assms
    by (cases ending)
       (simp_all add: loadPlugin_def Let_def registerImperative_eq finishLoad_keeps)
  then have keep: "\<forall>t g. commands (registerCommands L imperative) t = Some g
                \<longrightarrow> (\<exists>g'. commands (loadPlugin env L i) t = Some g'
                           \<and> g'\<lparr>cmd_category := cmd_category g\<rparr> = g)"
    by simp
  have rej: "commands (loadPlugin env L i) = commands (registerCommands L imperative)
              \<and> (\<forall>t. commands (loadPlugin env L i) t =
                    (case commands L t of
                       Some g \<Rightarrow> Some g
                     | None \<Rightarrow> find (\<lambda>h. t \<in> toLowerCase ` set (cmd_commands h)) imperative))
              \<and> \<not> loaded (pluginMetadata (loadPlugin env L i) ! i)
              \<and> loadedPlugins (loadPlugin env L i) = loadedPlugins L"
    if "ending = Some p" and "init p = Some Throws" for p
    using loadPlugin_init_rejects [OF assms, of p] that assms(2)
    by (simp add: exported_plugin_def imperative_of_def registerCommands_commands)
  from keep rej show ?thesis by blast
qed

theorem imperative_registration_survives_failed_init_witness:
  "0 < length (pluginMetadata (discoverPlugins (empty_loader ''plugins'') two_files))
   \<and> \<not> loaded (pluginMetadata (discoverPlugins (empty_loader ''plugins'') two_files) ! 0)
   \<and> init latePlugin = Some Throws
   \<and> commands (loadPlugin (env_of (modules_ab lateExport NoDefault) (\<lambda>p. True))
        (discoverPlugins (empty_loader ''plugins'') two_files) 0) ''late'' = Some lateHandler
   \<and> \<not> loaded (pluginMetadata (loadPlugin (env_of (modules_ab lateExport NoDefault) (\<lambda>p. True))
        (discoverPlugins (empty_loader ''plugins'') two_files) 0) ! 0)"
proof -
  let ?env = "env_of (modules_ab lateExport NoDefault) (\<lambda>p. True)"
  let ?L = "discoverPlugins (empty_loader ''plugins'') two_files"
  have h1: "0 < length (pluginMetadata ?L)"
    by (simp add: env_of_def modules_ab_def two_files_def empty_loader_def discoverPlugins_def
          loadPlugin_def finishLoad_def log_def Let_def endsWith_def path_join_def toLowerCase_def
          lower_char_def plugin_of_def handler_of_def)
  have h2: "\<not> loaded (pluginMetadata ?L ! 0)"
    by (simp add: env_of_def modules_ab_def two_files_def empty_loader_def discoverPlugins_def
          loadPlugin_def finishLoad_def log_def Let_def endsWith_def path_join_def toLowerCase_def
          lower_char_def plugin_of_def handler_of_def)
  have h3: "importModule ?env (filePath (pluginMetadata ?L ! 0))
        = Module (ExportFactory [lateHandler] (Some latePlugin))"
    by (simp add: env_of_def modules_ab_def two_files_def empty_loader_def discoverPlugins_def
          loadPlugin_def finishLoad_def log_def Let_def endsWith_def path_join_def toLowerCase_def
          lower_char_def plugin_of_def handler_of_def lateExport_def)
  have h4: "\<exists>p. Some latePlugin = Some p \<and> init p = Some Throws"
    by (simp add: latePlugin_def plugin_of_def)
  have h5: "init latePlugin = Some Throws"
    by (simp add: latePlugin_def plugin_of_def)
  show ?thesis
    using h1 h2 h4 h5 imperative_registration_survives_failed_init [OF h1 h2 h3]
    by (simp add: env_of_def modules_ab_def two_files_def empty_loader_def discoverPlugins_def
          loadPlugin_def finishLoad_def log_def Let_def endsWith_def path_join_def toLowerCase_def
          lower_char_def plugin_of_def handler_of_def
          lateExport_def latePlugin_def lateHandler_def)
qed

section \<open>The supervisor\<close>

lemma booted_eq:
  "booted =
     \<lparr>currentProcess = Some 0, fileWatchers = [(1, 0, ''src/index.ts'')], isRestarting = False,
      debounceTimer = None, isShuttingDown = False, now = 0, timers = [], kills = [],
      connected = (\<lambda>p. False)(0 := True), nextHandle = 2, cwd = ''/bot'', exited = None,
      trace = [Logged (StartingBot ''src/index.ts''), Spawn 0 ''src/index.ts'', Logged Received,
               Logged BotReady, Logged NoWatchersToCleanUp,
               Logged (SettingUpWatchers ''/bot/src''),
               Logged (PluginsDirectory ''/bot/src/plugins''), Watch 1]\<rparr>"
  by (simp add: booted_def initial_monitor_def step_def startApp_def startAppProcess_def
        on_message_def setupFileWatchers_def cleanupFileWatchers_def mlog_def emit_def Let_def
        srcDir_def path_join_def)

lemma close_watchers_fields:
  "timers (fold (\<lambda>w s. emit (CloseWatcher (fst w)) s) (ws :: watcher list) s) = timers s
   \<and> isRestarting (fold (\<lambda>w s. emit (CloseWatcher (fst w)) s) ws s) = isRestarting s
   \<and> isShuttingDown (fold (\<lambda>w s. emit (CloseWatcher (fst w)) s) ws s) = isShuttingDown s
   \<and> now (fold (\<lambda>w s. emit (CloseWatcher (fst w)) s) ws s) = now s
   \<and> nextHandle (fold (\<lambda>w s. emit (CloseWatcher (fst w)) s) ws s) = nextHandle s"
  by (induction ws arbitrary: s) (simp_all add: emit_def)

lemma cleanup_fields [simp]:
  "timers (cleanupFileWatchers st) = timers st"
  "isRestarting (cleanupFileWatchers st) = isRestarting st"
  "isShuttingDown (cleanupFileWatchers st) = isShuttingDown st"
  "now (cleanupFileWatchers st) = now st"
  "nextHandle (cleanupFileWatchers st) = nextHandle st"
  by (simp_all add: cleanupFileWatchers_def Let_def mlog_def emit_def close_watchers_fields)

text \<open>
  Claim C8. The exit handler sets no timer when the exit code is zero, whatever the
  state. When the code is not zero (or is \<open>null\<close>) and the supervisor is neither
  shutting down nor restarting, it sets exactly one timer, due 5000 ms after the current
  time, and that timer's callback is \<open>startApp(file)\<close>.
\<close>

theorem on_exit_restart_schedule:
  "timers (on_exit file (Some 0) st) = timers st
   \<and> (code \<noteq> Some 0 \<and> \<not> isShuttingDown st \<and> \<not> isRestarting st \<longrightarrow>
        timers (on_exit file code st) =
          timers st @ [(nextHandle st, now st + 5000, RestartAfterExit file)])
   \<and> fire (RestartAfterExit file) st' = startApp file st'"
  by (simp add: on_exit_def Let_def mlog_def emit_def setTimeout_def fire_def)

theorem on_exit_restart_schedule_witness:
  "Some 1 \<noteq> Some (0::int) \<and> \<not> isShuttingDown booted \<and> \<not> isRestarting booted
   \<and> timers (on_exit ''src/index.ts'' (Some 1) booted)
       = [(2, 5000, RestartAfterExit ''src/index.ts'')]
   \<and> timers (on_exit ''src/index.ts'' (Some 0) booted) = []"
  using on_exit_restart_schedule [of "''src/index.ts''" booted "Some 1"]
  by (simp add: booted_eq)

lemma advance_nothing_due:
  assumes "\<forall>tm \<in> set (timers st). t < fst (snd tm)"
  shows "advance t st = st\<lparr>now := max (now st) t\<rparr>"
proof -
  have "filter (\<lambda>tm. fst (snd tm) \<le> t) (timers st) = []"
    using assms by (auto simp: filter_empty_conv)
  then show ?thesis by (simp add: advance_def)
qed

lemma advance_one_due:
  "timers st = [tm] \<Longrightarrow> fst (snd tm) \<le> t \<Longrightarrow> exited st = None \<Longrightarrow>
   advance t st =
     (let st' = fire (snd (snd tm)) (st\<lparr>timers := [], now := max (now st) (fst (snd tm))\<rparr>)
      in st'\<lparr>now := max (now st') t\<rparr>)"
  by (simp add: advance_def fire_due_def Let_def)

lemma on_change_arms:
  assumes "\<not> isShuttingDown st" and "code_file name"
    and "timers st = [] \<or> (\<exists>h d cb. timers st = [(h, d, cb)] \<and> debounceTimer st = Some h)"
  shows "on_change w eventType (Some name) st =
           st\<lparr>trace := trace st
                @ [Logged (FileChangeDetected eventType (path_join (srcDir st) name))],
              timers := [(nextHandle st, now st + DEBOUNCE_TIME,
                          DebounceFire (fst (snd w)) (snd (snd w)) name)],
              debounceTimer := Some (nextHandle st),
              nextHandle := Suc (nextHandle st)\<rparr>"
  using assms
  by (auto simp: on_change_def code_file_def Let_def mlog_def emit_def setTimeout_def
        clearTimeout_def srcDir_def split: option.splits)

lemma step_arms:
  assumes "exited st = None" and "\<not> isShuttingDown st" and "w \<in> set (fileWatchers st)"
    and "code_file name" and "now st \<le> t"
    and "timers st = []
         \<or> (\<exists>h d cb. timers st = [(h, d, cb)] \<and> debounceTimer st = Some h \<and> t < d)"
  shows "step (FsEvent w eventType (Some name)) (advance t st) = armed st w eventType [(t, name)]"
proof -
  have nd: "\<forall>tm \<in> set (timers st). t < fst (snd tm)"
    using assms(6) by auto
  have adv: "advance t st = st\<lparr>now := t\<rparr>"
    using advance_nothing_due [OF nd] assms(5) by (simp add: max_def)
  have pend: "timers (st\<lparr>now := t\<rparr>) = []
       \<or> (\<exists>h d cb. timers (st\<lparr>now := t\<rparr>) = [(h, d, cb)]
                   \<and> debounceTimer (st\<lparr>now := t\<rparr>) = Some h)"
    using assms(6) by auto
  have "on_change w eventType (Some name) (st\<lparr>now := t\<rparr>) = armed st w eventType [(t, name)]"
    using on_change_arms [of "st\<lparr>now := t\<rparr>" name w eventType, OF _ assms(4) pend] assms(2)
    by (simp add: armed_def change_logs_def srcDir_def)
  then show ?thesis
    using assms(1,3) by (simp add: step_def adv)
qed

lemma armed_fields [simp]:
  "exited (armed st w ev b) = exited st"
  "isShuttingDown (armed st w ev b) = isShuttingDown st"
  "fileWatchers (armed st w ev b) = fileWatchers st"
  "srcDir (armed st w ev b) = srcDir st"
  "now (armed st w ev b) = fst (last b)"
  "nextHandle (armed st w ev b) = nextHandle st + length b"
  "trace (armed st w ev b) = trace st @ change_logs st ev b"
  by (simp_all add: armed_def srcDir_def)

lemma run_burst:
  assumes "burst \<noteq> []" and "exited st = None" and "\<not> isShuttingDown st"
    and "w \<in> set (fileWatchers st)" and "\<forall>e \<in> set burst. code_file (snd e)"
    and "spaced (map fst burst)" and "now st \<le> fst (hd burst)"
    and "timers st = []
         \<or> (\<exists>h d cb. timers st = [(h, d, cb)] \<and> debounceTimer st = Some h
                      \<and> fst (hd burst) < d)"
  shows "run (burst_events w eventType burst) st = armed st w eventType burst"
  using assms
proof (induction burst arbitrary: st)
  case Nil
  then show ?case by simp
next
  case (Cons e rest)
  obtain t name where e: "e = (t, name)" by (cases e)
  have first: "step (FsEvent w eventType (Some name)) (advance t st)
                 = armed st w eventType [(t, name)]"
    using Cons.prems e by (intro step_arms) auto
  show ?case
  proof (cases rest)
    case Nil
    with first e show ?thesis by (simp add: burst_events_def)
  next
    case more: (Cons e' rest')
    obtain t' name' where e': "e' = (t', name')" by (cases e')
    let ?st1 = "armed st w eventType [(t, name)]"
    have sp: "t \<le> t'" "t' < t + DEBOUNCE_TIME" "spaced (map fst rest)"
      using Cons.prems(6) e e' more by simp_all
    have pend: "timers ?st1 = []
         \<or> (\<exists>h d cb. timers ?st1 = [(h, d, cb)] \<and> debounceTimer ?st1 = Some h
                      \<and> fst (hd rest) < d)"
      using sp more e' by (simp add: armed_def)
    have ih: "run (burst_events w eventType rest) ?st1 = armed ?st1 w eventType rest"
      using Cons.prems sp pend more e'
      by (intro Cons.IH) auto
    have "armed ?st1 w eventType rest = armed st w eventType (e # rest)"
      using more e by (simp add: armed_def change_logs_def srcDir_def)
    with ih first e show ?thesis by (simp add: burst_events_def)
  qed
qed

lemma startAppProcess_now [simp]: "now (startAppProcess file st) = now st"
  by (simp add: startAppProcess_def mlog_def emit_def Let_def)

lemma startApp_now [simp]: "now (startApp file st) = now st"
  by (simp add: startApp_def mlog_def emit_def treeKill_def Let_def split: option.splits)

lemma debounced_now [simp]: "now (debounced proc mainFile name st) = now st"
  by (simp add: debounced_def mlog_def emit_def Let_def)

text \<open>
  Claim C9, amended. Take a supervisor that is running (not shutting down, not exited)
  with no timer pending and an active watcher, and a non-empty burst of change events
  for code files (names ending in \<open>.ts\<close> or \<open>.js\<close>, not under \<open>node_modules\<close>), each
  arriving less than 500 ms after the one before. Once 500 ms have passed after the last
  event, the supervisor has logged each event and run the debounced action exactly once,
  for the file name of the last event: every earlier timer was cancelled by the event
  that followed it. When that file is under \<open>plugins/\<close> and the worker's channel is
  connected, the action sends exactly one \<open>reloadPlugin\<close> instruction, with the path of
  the last event.
\<close>

theorem debounce_burst_single_action:
  assumes "burst \<noteq> []" and "exited st = None" and "\<not> isShuttingDown st"
    and "timers st = []" and "w \<in> set (fileWatchers st)"
    and "\<forall>e \<in> set burst. code_file (snd e)"
    and "spaced (map fst burst)" and "now st \<le> fst (hd burst)"
    and "fst (last burst) + DEBOUNCE_TIME \<le> T"
  shows "advance T (run (burst_events w eventType burst) st) =
           (debounced (fst (snd w)) (snd (snd w)) (snd (last burst))
              ((armed st w eventType burst)
                 \<lparr>timers := [], now := fst (last burst) + DEBOUNCE_TIME\<rparr>))\<lparr>now := T\<rparr>
         \<and> (startsWith (snd (last burst)) ''plugins/'' \<and> connected st (fst (snd w)) \<longrightarrow>
              trace (advance T (run (burst_events w eventType burst) st)) =
                trace st @ change_logs st eventType burst @
                  [Logged (PluginChangeDetected (snd (last burst))),
                   Send (fst (snd w)) (ReloadPlugin (path_join (srcDir st) (snd (last burst)))),
                   Logged (SentReloadCommand (snd (last burst)))])"
proof -
  let ?A = "armed st w eventType burst"
  let ?tm = "(nextHandle st + length burst - 1, fst (last burst) + DEBOUNCE_TIME,
              DebounceFire (fst (snd w)) (snd (snd w)) (snd (last burst)))"
  have r: "run (burst_events w eventType burst) st = ?A"
    using assms by (intro run_burst) auto
  have tm: "timers ?A = [?tm]" by (simp add: armed_def)
  have due: "fst (snd ?tm) \<le> T" using assms(9) by simp
  have ex: "exited ?A = None" using assms(2) by simp
  have adv: "advance T ?A =
      (debounced (fst (snd w)) (snd (snd w)) (snd (last burst))
              (?A\<lparr>timers := [], now := fst (last burst) + DEBOUNCE_TIME\<rparr>))\<lparr>now := T\<rparr>"
    using advance_one_due [OF tm due ex] assms(9)
    by (simp add: Let_def fire_def max_def)
  have tr: "trace (advance T ?A) =
                trace st @ change_logs st eventType burst @
                  [Logged (PluginChangeDetected (snd (last burst))),
                   Send (fst (snd w)) (ReloadPlugin (path_join (srcDir st) (snd (last burst)))),
                   Logged (SentReloadCommand (snd (last burst)))]"
    if "startsWith (snd (last burst)) ''plugins/''" and "connected st (fst (snd w))"
    using that unfolding adv
    by (simp add: debounced_def Let_def mlog_def emit_def armed_def srcDir_def)
  from r adv tr show ?thesis by simp
qed

theorem debounce_burst_single_action_witness:
  "ping_burst \<noteq> [] \<and> exited booted = None \<and> \<not> isShuttingDown booted \<and> timers booted = []
   \<and> (1, 0, ''src/index.ts'') \<in> set (fileWatchers booted)
   \<and> code_file ''plugins/utility/ping.ts'' \<and> spaced (map fst ping_burst)
   \<and> now booted \<le> fst (hd ping_burst) \<and> fst (last ping_burst) + DEBOUNCE_TIME \<le> 900
   \<and> startsWith (snd (last ping_burst)) ''plugins/'' \<and> connected booted 0
   \<and> trace (advance 900
        (run (burst_events (1, 0, ''src/index.ts'') ''change'' ping_burst) booted)) =
       trace booted @
         [Logged (FileChangeDetected ''change'' ''/bot/src/plugins/utility/ping.ts''),
          Logged (FileChangeDetected ''change'' ''/bot/src/plugins/utility/ping.ts''),
          Logged (FileChangeDetected ''change'' ''/bot/src/plugins/utility/ping.ts''),
          Logged (PluginChangeDetected ''plugins/utility/ping.ts''),
          Send 0 (ReloadPlugin ''/bot/src/plugins/utility/ping.ts''),
          Logged (SentReloadCommand ''plugins/utility/ping.ts'')]"
proof -
  have h1: "ping_burst \<noteq> []" by (simp add: ping_burst_def)
  have h2: "exited booted = None" by (simp add: booted_eq)
  have h3: "\<not> isShuttingDown booted" by (simp add: booted_eq)
  have h4: "timers booted = []" by (simp add: booted_eq)
  have h5: "(1, 0, ''src/index.ts'') \<in> set (fileWatchers booted)" by (simp add: booted_eq)
  have h6: "\<forall>e \<in> set ping_burst. code_file (snd e)"
    by (simp add: ping_burst_def code_file_def endsWith_def)
  have h7: "spaced (map fst ping_burst)" by (simp add: ping_burst_def DEBOUNCE_TIME_def)
  have h8: "now booted \<le> fst (hd ping_burst)" by (simp add: booted_eq ping_burst_def)
  have h9: "fst (last ping_burst) + DEBOUNCE_TIME \<le> 900"
    by (simp add: ping_burst_def DEBOUNCE_TIME_def)
  have h10: "startsWith (snd (last ping_burst)) ''plugins/''" by (simp add: ping_burst_def)
  have h11: "connected booted 0" by (simp add: booted_eq)
  have s: "srcDir booted = ''/bot/src''" by (simp add: booted_eq srcDir_def path_join_def)
  note t = debounce_burst_single_action [OF h1 h2 h3 h4 h5 h6 h7 h8 h9, of "''change''",
      THEN conjunct2, THEN mp, OF conjI [OF h10], simplified, OF h11]
  have "trace (advance 900
          (run (burst_events (1, 0, ''src/index.ts'') ''change'' ping_burst) booted)) =
       trace booted @
         [Logged (FileChangeDetected ''change'' ''/bot/src/plugins/utility/ping.ts''),
          Logged (FileChangeDetected ''change'' ''/bot/src/plugins/utility/ping.ts''),
          Logged (FileChangeDetected ''change'' ''/bot/src/plugins/utility/ping.ts''),
          Logged (PluginChangeDetected ''plugins/utility/ping.ts''),
          Send 0 (ReloadPlugin ''/bot/src/plugins/utility/ping.ts''),
          Logged (SentReloadCommand ''plugins/utility/ping.ts'')]"
    using t by (simp add: change_logs_def s ping_burst_def path_join_def)
  moreover have "code_file ''plugins/utility/ping.ts''"
    by (simp add: code_file_def endsWith_def)
  ultimately show ?thesis
    using h1 h2 h3 h4 h5 h7 h8 h9 h10 h11 by blast
qed

text \<open>
  Claim C9 as stated fails in two ways. The same burst of three events for a plugin
  file, with the worker's channel not connected: the action runs once and sends nothing.
  And a burst of two events for \<open>plugins/utility/notes.md\<close>: the watch callback drops
  them, no timer is set and nothing happens at all.
\<close>

theorem debounce_burst_counterexample:
  "trace (advance 900 (run (burst_events (1, 0, ''src/index.ts'') ''change'' ping_burst)
            (booted\<lparr>connected := (\<lambda>p. False)\<rparr>))) =
     trace booted @
       [Logged (FileChangeDetected ''change'' ''/bot/src/plugins/utility/ping.ts''),
        Logged (FileChangeDetected ''change'' ''/bot/src/plugins/utility/ping.ts''),
        Logged (FileChangeDetected ''change'' ''/bot/src/plugins/utility/ping.ts''),
        Logged (PluginChangeDetected ''plugins/utility/ping.ts''),
        Logged CannotReloadPlugin]
   \<and> advance 900 (run (burst_events (1, 0, ''src/index.ts'') ''change''
          [(10, ''plugins/utility/notes.md''), (120, ''plugins/utility/notes.md'')]) booted)
       = booted\<lparr>now := 900\<rparr>"
  by (simp add: booted_eq ping_burst_def burst_events_def advance_def step_def on_change_def
        fire_due_def fire_def debounced_def setTimeout_def clearTimeout_def mlog_def emit_def
        Let_def srcDir_def path_join_def endsWith_def DEBOUNCE_TIME_def)

end
